theory Spec2Isabelle
  imports Complex_Main
begin

section \<open>Word chain bot: data model\<close>

text \<open>
  The embedding follows \<^verbatim>\<open>main.py\<close> (class \<^verbatim>\<open>Config\<close>, class \<^verbatim>\<open>Bot\<close>) and
  \<^verbatim>\<open>model.py\<close> (the tables and \<^verbatim>\<open>ServerConfig\<close>). Python integers are \<open>int\<close>,
  the SQL \<^verbatim>\<open>Float\<close> column \<^verbatim>\<open>karma\<close> is \<open>real\<close>, strings are \<open>string\<close>,
  \<^verbatim>\<open>Optional\<close> values are \<open>option\<close>.
\<close>

subsection \<open>Reaction emojis\<close>

text \<open>
  The emoji literals of the source, one constructor each: the warning sign, the cross mark of
  \<^verbatim>\<open>handle_mistake\<close>, the party popper of a new high score, the three markers keyed by a
  count (100, 69, 666), the white heavy check mark and the ballot box with check.
  \<open>Custom\<close> stands for an entry of the table \<^verbatim>\<open>SPECIAL_REACTION_EMOJIS\<close>.
\<close>

datatype emoji =
    Warning_sign
  | Cross_mark
  | Party_popper
  | Hundred_points
  | Smirking_face
  | Ogre
  | Check_mark_button
  | Check_box_with_check
  | Custom string

subsection \<open>\<^verbatim>\<open>Config\<close> (main.py)\<close>

record config =
  channel_id :: "int option"
  current_count :: int
  current_word :: "string option"
  high_score :: int
  current_member_id :: "int option"
  put_high_score_emoji :: bool
  failed_role_id :: "int option"
  reliable_role_id :: "int option"
  failed_member_id :: "int option"
  correct_inputs_by_failed_member :: int

definition update_current :: "config \<Rightarrow> int \<Rightarrow> string \<Rightarrow> config" where
  "update_current c member_id word =
     (let c1 = c\<lparr>current_count := current_count c + 1\<rparr>;
          c2 = c1\<lparr>current_word := Some word\<rparr>;
          c3 = c2\<lparr>current_member_id := Some member_id\<rparr>
      in c3\<lparr>high_score := max (high_score c3) (current_count c3)\<rparr>)"

definition reset :: "config \<Rightarrow> config" where
  "reset c = c\<lparr>current_count := 0,
               correct_inputs_by_failed_member := 0,
               put_high_score_emoji := False\<rparr>"

text \<open>The dictionary literal \<^verbatim>\<open>{100: .., 69: .., 666: ..}\<close> with \<^verbatim>\<open>.get(count, default)\<close>.\<close>

definition special_emojis_get :: "int \<Rightarrow> emoji \<Rightarrow> emoji" where
  "special_emojis_get n dflt =
     (if n = 100 then Hundred_points
      else if n = 69 then Smirking_face
      else if n = 666 then Ogre
      else dflt)"

text \<open>\<^verbatim>\<open>Config.reaction_emoji\<close>: returns the emoji and the config with the flag possibly set.\<close>

definition reaction_emoji :: "config \<Rightarrow> emoji \<times> config" where
  "reaction_emoji c =
     (if current_count c = high_score c \<and> \<not> put_high_score_emoji c
      then (Party_popper, c\<lparr>put_high_score_emoji := True\<rparr>)
      else (special_emojis_get (current_count c) Check_mark_button, c))"

subsection \<open>\<^verbatim>\<open>ServerConfig\<close> (model.py)\<close>

record server_config =
  sc_server_id :: int
  sc_channel_id :: "int option"
  sc_current_count :: int
  sc_current_word :: "string option"
  sc_high_score :: int
  sc_used_high_score_emoji :: bool
  sc_reliable_role_id :: "int option"
  sc_failed_role_id :: "int option"
  sc_last_member_id :: "int option"
  sc_failed_member_id :: "int option"
  sc_correct_inputs_by_failed_member :: int
  sc_is_banned :: bool

definition sc_fail_chain :: "server_config \<Rightarrow> int \<Rightarrow> server_config" where
  "sc_fail_chain c member_id =
     c\<lparr>sc_current_count := 0,
       sc_failed_member_id := Some member_id,
       sc_correct_inputs_by_failed_member := 0,
       sc_used_high_score_emoji := False\<rparr>"

definition sc_update_current :: "server_config \<Rightarrow> int \<Rightarrow> string \<Rightarrow> server_config" where
  "sc_update_current c member_id word =
     (let c1 = c\<lparr>sc_current_count := sc_current_count c + 1\<rparr>;
          c2 = c1\<lparr>sc_current_word := Some word\<rparr>;
          c3 = c2\<lparr>sc_last_member_id := Some member_id\<rparr>
      in c3\<lparr>sc_high_score := max (sc_high_score c3) (sc_current_count c3)\<rparr>)"


subsection \<open>What \<^verbatim>\<open>main.py\<close> takes from elsewhere\<close>

text \<open>
  \<^verbatim>\<open>main.py\<close> imports its word lists and numeric constants with
  \<^verbatim>\<open>from consts import *\<close>, reads \<^verbatim>\<open>SINGLE_PLAYER\<close> from the environment and imports
  \<^verbatim>\<open>calculate_total_karma\<close> from \<^verbatim>\<open>data\<close>. Their values are parameters of the model:
  every function below takes them in one record. \<open>karma_fn\<close> is the imported
  \<^verbatim>\<open>calculate_total_karma\<close>.

  \<open>lower\<close> is Python's \<^verbatim>\<open>str.lower\<close>. It follows the case mapping of Unicode: it
  changes characters other than the letters A to Z and may change the length of a string. Its
  case table is no part of the repository, so it is a parameter as well: the properties
  below are proved for every lowering function.
\<close>

record constants =
  POSSIBLE_CHARACTERS :: string
  GLOBAL_BLACKLIST_2_LETTER_WORDS :: "string set"
  GLOBAL_BLACKLIST_N_LETTER_WORDS :: "string set"
  GLOBAL_WHITELIST_3_LETTER_WORDS :: "string set"
  SPECIAL_REACTION_EMOJIS :: "string \<Rightarrow> emoji option"
  MISTAKE_PENALTY :: real
  HISTORY_LENGTH :: nat
  SINGLE_PLAYER :: bool
  karma_fn :: "string \<Rightarrow> string list \<Rightarrow> real"
  lower :: "string \<Rightarrow> string"

subsection \<open>Tables (model.py)\<close>

record member_row =
  score :: int
  correct :: int
  wrong :: int
  karma :: real

text \<open>
  Each table is keyed by its primary key: \<open>member\<close> by (server id, member id),
  \<open>used_words\<close>, \<open>blacklist\<close> and \<open>whitelist\<close> by (server id, word), \<open>word_cache\<close> by the word.
\<close>

record db =
  member_tbl :: "int \<times> int \<Rightarrow> member_row option"
  used_words_tbl :: "(int \<times> string) set"
  word_cache_tbl :: "string set"
  blacklist_tbl :: "(int \<times> string) set"
  whitelist_tbl :: "(int \<times> string) set"

text \<open>An SQL \<^verbatim>\<open>UPDATE member SET .. WHERE server_id = .. AND member_id = ..\<close>:
  a missing row is left missing.\<close>

definition update_member :: "db \<Rightarrow> int \<Rightarrow> int \<Rightarrow> (member_row \<Rightarrow> member_row) \<Rightarrow> db" where
  "update_member d sid mid f =
     (case member_tbl d (sid, mid) of
        None \<Rightarrow> d
      | Some r \<Rightarrow> d\<lparr>member_tbl := (member_tbl d)((sid, mid) \<mapsto> f r)\<rparr>)"

subsection \<open>Messages, effects and the bot's state\<close>

record message =
  author_id :: int
  channel :: int
  guild_id :: int
  content :: string

datatype mistake = Wrong_member | Wrong_letter | Doesnt_exist

text \<open>
  The texts the bot sends. A mistake's text carries what its f-string interpolates: the
  author, the chain length (only when positive), the letter to restart with (absent in the one
  text that does not mention it) and the high score.
\<close>

datatype text_msg =
    Single_letter_text
  | Blacklisted_text
  | Already_used_text string
  | Mistake_text mistake int "int option" "char option" int
  | Backend_issue_text
  | Nice_work_text int

datatype stmt =
    Select_exists_member int int
  | Insert_member int int
  | Select_exists_whitelist int string
  | Select_exists_blacklist int string
  | Select_exists_word_cache string
  | Select_exists_used_words int string
  | Update_member_correct int int real
  | Update_member_wrong int int
  | Insert_used_words int string

text \<open>What a call does to the outside, in order: statements on the connection, the
  dictionary query, the reactions and texts sent, the final hand-over to the busy work.\<close>

datatype event =
    Execute stmt
  | Commit
  | Start_api_query string
  | Get_query_response
  | Add_reaction emoji
  | Channel_send text_msg
  | Schedule_busy_work

datatype py_exception =
    IndexError | KeyError | TypeError | AttributeError | ValueError

datatype outcome =
    Ignored
  | Single_letter
  | Blacklisted
  | Already_used
  | Mistake mistake
  | Backend_error
  | Accepted
  | Raised py_exception

text \<open>
  The attributes of \<^verbatim>\<open>Bot\<close>. \<open>cached_words\<close> is a Python set, kept as a list without
  duplicates (its iteration order is the list's); \<open>history\<close> is the
  \<^verbatim>\<open>defaultdict\<close> of bounded deques, a missing key being the empty deque; a role is
  its id.
\<close>

record bot =
  user :: int
  config :: config
  busy :: int
  cached_words :: "string list option"
  participating_users :: "int set option"
  history :: "int \<Rightarrow> string list"
  failed_role :: "int option"
  reliable_role :: "int option"

type_synonym result = "outcome \<times> bot \<times> db \<times> event list"

definition outcome_of :: "result \<Rightarrow> outcome" where
  "outcome_of r = fst r"

definition bot_of :: "result \<Rightarrow> bot" where
  "bot_of r = fst (snd r)"

definition db_of :: "result \<Rightarrow> db" where
  "db_of r = fst (snd (snd r))"

definition trace_of :: "result \<Rightarrow> event list" where
  "trace_of r = snd (snd (snd r))"

definition prepend :: "event list \<Rightarrow> result \<Rightarrow> result" where
  "prepend t r = (outcome_of r, bot_of r, db_of r, t @ trace_of r)"

subsection \<open>Strings\<close>

text \<open>The lowering used in the examples: \<^verbatim>\<open>str.lower\<close> as it is on strings of ASCII
  characters, where the letters A to Z are mapped and every other character is kept.\<close>

definition ascii_lower_char :: "char \<Rightarrow> char" where
  "ascii_lower_char c =
     (case map_of (zip ''ABCDEFGHIJKLMNOPQRSTUVWXYZ'' ''abcdefghijklmnopqrstuvwxyz'') c of
        None \<Rightarrow> c
      | Some l \<Rightarrow> l)"

definition ascii_lower :: "string \<Rightarrow> string" where
  "ascii_lower s = map ascii_lower_char s"

text \<open>\<^verbatim>\<open>current_word[-1]\<close>: a \<^verbatim>\<open>TypeError\<close> on \<^verbatim>\<open>None\<close>, an \<^verbatim>\<open>IndexError\<close> on the
  empty string.\<close>

definition last_letter :: "string option \<Rightarrow> py_exception + char" where
  "last_letter cw =
     (case cw of
        None \<Rightarrow> Inl TypeError
      | Some w \<Rightarrow> if w = [] then Inl IndexError else Inr (last w))"

text \<open>\<^verbatim>\<open>deque(maxlen=n).append(x)\<close>: the oldest entries are dropped from the left.\<close>

definition deque_append :: "nat \<Rightarrow> 'a list \<Rightarrow> 'a \<Rightarrow> 'a list" where
  "deque_append n xs x = (let ys = xs @ [x] in drop (length ys - n) ys)"

text \<open>\<^verbatim>\<open>set.add\<close> on the list that stands for a set.\<close>

definition set_add :: "'a \<Rightarrow> 'a list \<Rightarrow> 'a list" where
  "set_add x xs = (if x \<in> set xs then xs else xs @ [x])"

section \<open>The dictionary query\<close>

datatype json =
    JNull
  | JBool bool
  | JNum real
  | JStr string
  | JList "json list"
  | JDict "(string \<times> json) list"

text \<open>A response: its status code and its body, \<open>None\<close> when \<^verbatim>\<open>response.json()\<close>
  raises on it.\<close>

datatype response = Response (status_code: int) (body: "json option")

text \<open>What \<^verbatim>\<open>future.result(timeout=5)\<close> does: it returns the response, raises
  \<^verbatim>\<open>TimeoutError\<close>, or raises the exception of the request.\<close>

datatype future_result = Result response | Timed_out | Request_failed

definition API_RESPONSE_WORD_EXISTS :: int where
  "API_RESPONSE_WORD_EXISTS = 1"

definition API_RESPONSE_WORD_DOESNT_EXIST :: int where
  "API_RESPONSE_WORD_DOESNT_EXIST = 0"

definition API_RESPONSE_ERROR :: int where
  "API_RESPONSE_ERROR = - 1"

text \<open>\<^verbatim>\<open>x[i]\<close> for a non-negative \<open>i\<close> on a decoded JSON value. The keys of a JSON
  object are strings, so an integer key is never found.\<close>

fun subscript :: "json \<Rightarrow> nat \<Rightarrow> py_exception + json" where
  "subscript (JList xs) i = (if i < length xs then Inr (xs ! i) else Inl IndexError)"
| "subscript (JStr s) i = (if i < length s then Inr (JStr [s ! i]) else Inl IndexError)"
| "subscript (JDict kvs) i = Inl KeyError"
| "subscript JNull i = Inl TypeError"
| "subscript (JBool b) i = Inl TypeError"
| "subscript (JNum x) i = Inl TypeError"

text \<open>\<^verbatim>\<open>x.lower()\<close> on a decoded JSON value: only a string has the method.\<close>

fun str_lower :: "constants \<Rightarrow> json \<Rightarrow> py_exception + string" where
  "str_lower K (JStr s) = Inr (lower K s)"
| "str_lower K JNull = Inl AttributeError"
| "str_lower K (JBool b) = Inl AttributeError"
| "str_lower K (JNum x) = Inl AttributeError"
| "str_lower K (JList xs) = Inl AttributeError"
| "str_lower K (JDict kvs) = Inl AttributeError"

text \<open>The body of the \<^verbatim>\<open>try\<close> from \<^verbatim>\<open>data = response.json()\<close> on: whether the best
  match equals the word, or the exception raised on the way.\<close>

definition best_match_equals :: "constants \<Rightarrow> response \<Rightarrow> py_exception + bool" where
  "best_match_equals K r =
     (case body r of
        None \<Rightarrow> Inl ValueError
      | Some data \<Rightarrow>
         (case subscript data 0 of
            Inl e \<Rightarrow> Inl e
          | Inr word \<Rightarrow>
             (case subscript data 1 of
                Inl e \<Rightarrow> Inl e
              | Inr matches \<Rightarrow>
                 (case subscript matches 0 of
                    Inl e \<Rightarrow> Inl e
                  | Inr best_match \<Rightarrow>
                     (case str_lower K best_match of
                        Inl e \<Rightarrow> Inl e
                      | Inr b \<Rightarrow>
                         (case str_lower K word of
                            Inl e \<Rightarrow> Inl e
                          | Inr w \<Rightarrow> Inr (b = w)))))))"

definition get_query_response :: "constants \<Rightarrow> future_result \<Rightarrow> int" where
  "get_query_response K fut =
     (case fut of
        Timed_out \<Rightarrow> API_RESPONSE_ERROR
      | Request_failed \<Rightarrow> API_RESPONSE_ERROR
      | Result r \<Rightarrow>
         if status_code r \<ge> 400 then API_RESPONSE_ERROR
         else (case best_match_equals K r of
                 Inr eq \<Rightarrow> if eq then API_RESPONSE_WORD_EXISTS else API_RESPONSE_WORD_DOESNT_EXIST
               | Inl e \<Rightarrow> if e = IndexError then API_RESPONSE_WORD_DOESNT_EXIST
                          else API_RESPONSE_ERROR))"

section \<open>The list filter and the word cache\<close>

definition is_word_whitelisted :: "string \<Rightarrow> int \<Rightarrow> db \<Rightarrow> bool \<times> event list" where
  "is_word_whitelisted word server_id d =
     ((server_id, word) \<in> whitelist_tbl d, [Execute (Select_exists_whitelist server_id word)])"

text \<open>\<^verbatim>\<open>Bot.is_word_blacklisted\<close>, with its two optional arguments; the second component is
  what it executes on the connection.\<close>

definition is_word_blacklisted ::
    "constants \<Rightarrow> string \<Rightarrow> int option \<Rightarrow> db option \<Rightarrow> bool \<times> event list" where
  "is_word_blacklisted K word server_id connection =
     (if word \<in> GLOBAL_BLACKLIST_2_LETTER_WORDS K \<or> word \<in> GLOBAL_BLACKLIST_N_LETTER_WORDS K
      then (True, [])
      else if length word = 3 \<and> word \<notin> GLOBAL_WHITELIST_3_LETTER_WORDS K
      then (True, [])
      else (case server_id of
              None \<Rightarrow> (False, [])
            | Some sid \<Rightarrow>
               (case connection of
                  None \<Rightarrow> (False, [])
                | Some d \<Rightarrow> ((sid, word) \<in> blacklist_tbl d,
                             [Execute (Select_exists_blacklist sid word)]))))"

definition is_word_in_cache :: "string \<Rightarrow> db \<Rightarrow> bool \<times> event list" where
  "is_word_in_cache word d =
     (word \<in> word_cache_tbl d, [Execute (Select_exists_word_cache word)])"

text \<open>
  \<^verbatim>\<open>Bot.add_to_cache\<close>. The table \<^verbatim>\<open>word_cache\<close> has the single column \<^verbatim>\<open>word\<close>
  (\<^verbatim>\<open>WordCacheModel\<close>); the statement built here is
  \<^verbatim>\<open>insert(WordCacheModel).values(words=word).prefix_with('OR IGNORE')\<close>. A value given
  for a name that is no column of the table makes the statement fail when it is executed
  (\<^verbatim>\<open>CompileError: Unconsumed column names\<close>); with the column's own name the row is
  inserted, and \<^verbatim>\<open>OR IGNORE\<close> skips a row whose key is present.
\<close>

datatype db_error = CompileError string

definition word_cache_columns :: "string list" where
  "word_cache_columns = [''word'']"

definition execute_insert_or_ignore_word_cache :: "string \<Rightarrow> string \<Rightarrow> db \<Rightarrow> db_error + db" where
  "execute_insert_or_ignore_word_cache column v d =
     (if column \<in> set word_cache_columns
      then Inr (d\<lparr>word_cache_tbl := insert v (word_cache_tbl d)\<rparr>)
      else Inl (CompileError column))"

fun add_words :: "constants \<Rightarrow> string list \<Rightarrow> db \<Rightarrow> db_error + db" where
  "add_words K [] d = Inr d"
| "add_words K (word # ws) d =
     (if \<not> fst (is_word_blacklisted K word None None)
      then (case execute_insert_or_ignore_word_cache ''words'' word d of
              Inl e \<Rightarrow> Inl e
            | Inr d' \<Rightarrow> add_words K ws d')
      else add_words K ws d)"

text \<open>The result is the exception that leaves the function (if any), the bot and the
  database; a transaction left by an exception is rolled back.\<close>

definition add_to_cache :: "constants \<Rightarrow> bot \<Rightarrow> db \<Rightarrow> db_error option \<times> bot \<times> db" where
  "add_to_cache K s d =
     (case cached_words s of
        None \<Rightarrow> (None, s, d)
      | Some words \<Rightarrow>
         if words = [] then (None, s, d)
         else (let s' = s\<lparr>cached_words := None\<rparr>
               in case add_words K words d of
                    Inl e \<Rightarrow> (Some e, s', d)
                  | Inr d' \<Rightarrow> (None, s', d')))"

section \<open>\<^verbatim>\<open>Bot.on_message\<close>\<close>

text \<open>Lines 309 to 314: the busy counter and the set of participating users.\<close>

definition enter :: "bot \<Rightarrow> message \<Rightarrow> bot" where
  "enter s m =
     s\<lparr>busy := busy s + 1,
       participating_users :=
         Some (case participating_users s of
                 None \<Rightarrow> {author_id m}
               | Some us \<Rightarrow> insert (author_id m) us)\<rparr>"

text \<open>The first transaction (lines 316 to 339): the author gets a row of zeros if there is
  none.\<close>

definition add_user :: "db \<Rightarrow> int \<Rightarrow> int \<Rightarrow> db \<times> event list" where
  "add_user d sid mid =
     (if member_tbl d (sid, mid) \<noteq> None
      then (d, [Execute (Select_exists_member sid mid)])
      else (d\<lparr>member_tbl := (member_tbl d)((sid, mid) \<mapsto>
                 \<lparr>score = 0, correct = 0, wrong = 0, karma = 0\<rparr>)\<rparr>,
            [Execute (Select_exists_member sid mid), Execute (Insert_member sid mid), Commit]))"

subsection \<open>\<^verbatim>\<open>Bot.handle_mistake\<close>\<close>

definition mistake_config :: "bot \<Rightarrow> message \<Rightarrow> config" where
  "mistake_config s m =
     reset (if failed_role s \<noteq> None
            then (config s)\<lparr>failed_member_id := Some (author_id m)\<rparr>
            else config s)"

definition mistake_db :: "constants \<Rightarrow> message \<Rightarrow> db \<Rightarrow> db" where
  "mistake_db K m d =
     update_member d (guild_id m) (author_id m)
       (\<lambda>r. r\<lparr>score := score r - 1,
              wrong := wrong r + 1,
              karma := max 0 (karma r - MISTAKE_PENALTY K)\<rparr>)"

definition handle_mistake ::
    "constants \<Rightarrow> message \<Rightarrow> mistake \<Rightarrow> text_msg \<Rightarrow> bot \<Rightarrow> db \<Rightarrow> result" where
  "handle_mistake K m kind response s d =
     (Mistake kind,
      s\<lparr>config := mistake_config s m\<rparr>,
      mistake_db K m d,
      [Channel_send response, Add_reaction Cross_mark,
       Execute (Update_member_wrong (guild_id m) (author_id m)), Commit,
       Schedule_busy_work])"

text \<open>The part of a mistake's text that depends on the chain length.\<close>

definition chain_length_part :: "config \<Rightarrow> int option" where
  "chain_length_part c = (if current_count c > 0 then Some (current_count c) else None)"

subsection \<open>Acceptance (lines 457 to 504)\<close>

definition accepted_config :: "bot \<Rightarrow> message \<Rightarrow> string \<Rightarrow> config" where
  "accepted_config s m word =
     (let c1 = update_current (config s) (author_id m) word;
          c2 = snd (reaction_emoji c1)
      in if failed_role s \<noteq> None \<and> failed_member_id c2 = Some (author_id m)
         then (let c3 = c2\<lparr>correct_inputs_by_failed_member :=
                             correct_inputs_by_failed_member c2 + 1\<rparr>
               in if correct_inputs_by_failed_member c3 \<ge> 30
                  then c3\<lparr>failed_member_id := None, correct_inputs_by_failed_member := 0\<rparr>
                  else c3)
         else c2)"

definition accepted_db :: "constants \<Rightarrow> bot \<Rightarrow> message \<Rightarrow> string \<Rightarrow> db \<Rightarrow> db" where
  "accepted_db K s m word d =
     (let k = karma_fn K word (history s (author_id m));
          d1 = update_member d (guild_id m) (author_id m)
                 (\<lambda>r. r\<lparr>score := score r + 1,
                        correct := correct r + 1,
                        karma := max 0 (karma r + k)\<rparr>)
      in d1\<lparr>used_words_tbl := insert (guild_id m, word) (used_words_tbl d1)\<rparr>)"

definition accept :: "constants \<Rightarrow> message \<Rightarrow> string \<Rightarrow> bot \<Rightarrow> db \<Rightarrow> result" where
  "accept K m word s d =
     (let new_count = current_count (config s) + 1;
          c1 = update_current (config s) (author_id m) word;
          e = fst (reaction_emoji c1);
          reaction = (case SPECIAL_REACTION_EMOJIS K word of Some x \<Rightarrow> x | None \<Rightarrow> e);
          last_words = history s (author_id m);
          k = karma_fn K word last_words
      in (Accepted,
          s\<lparr>config := accepted_config s m word,
            history := (history s)(author_id m :=
                          deque_append (HISTORY_LENGTH K) last_words word),
            cached_words := Some (case cached_words s of
                                    None \<Rightarrow> [word]
                                  | Some ws \<Rightarrow> set_add word ws)\<rparr>,
          accepted_db K s m word d,
          [Add_reaction reaction,
           Execute (Update_member_correct (guild_id m) (author_id m) k),
           Execute (Insert_used_words (guild_id m) word), Commit]
          @ (if new_count > 0 \<and> new_count mod 100 = 0
             then [Channel_send (Nice_work_text new_count)] else [])
          @ [Schedule_busy_work]))"

subsection \<open>The second transaction (lines 341 to 504)\<close>

text \<open>Lines 423 to 455: the query started earlier, if any, is resolved now. \<open>future\<close>
  tells whether one was started, \<open>fut\<close> is what the dictionary service answers.\<close>

definition resolve_query ::
    "constants \<Rightarrow> future_result \<Rightarrow> bool \<Rightarrow> message \<Rightarrow> string \<Rightarrow> bot \<Rightarrow> db \<Rightarrow> result" where
  "resolve_query K fut future m word s d =
     (if future then
        (let r = get_query_response K fut in
         if r = API_RESPONSE_WORD_DOESNT_EXIST then
           prepend [Get_query_response]
             (handle_mistake K m Doesnt_exist
                (Mistake_text Doesnt_exist (author_id m)
                   (case current_word (config s) of
                      None \<Rightarrow> None
                    | Some w \<Rightarrow> if w = [] then None else chain_length_part (config s))
                   (case current_word (config s) of
                      None \<Rightarrow> None
                    | Some w \<Rightarrow> if w = [] then None else Some (last w))
                   (high_score (config s)))
                s d)
         else if r = API_RESPONSE_ERROR then
           (Backend_error, s\<lparr>busy := busy s - 1\<rparr>, d,
            [Get_query_response, Add_reaction Warning_sign, Channel_send Backend_issue_text])
         else prepend [Get_query_response] (accept K m word s d))
      else accept K m word s d)"

text \<open>Lines 376 to 421: repetition, wrong member, wrong starting letter.\<close>

definition same_member_twice :: "constants \<Rightarrow> bot \<Rightarrow> message \<Rightarrow> bool" where
  "same_member_twice K s m =
     (\<not> SINGLE_PLAYER K \<and>
      (case current_member_id (config s) of
         None \<Rightarrow> False
       | Some i \<Rightarrow> i \<noteq> 0 \<and> i = author_id m))"

definition wrong_starting_letter :: "bot \<Rightarrow> string \<Rightarrow> bool" where
  "wrong_starting_letter s word =
     (case current_word (config s) of
        None \<Rightarrow> False
      | Some w \<Rightarrow> w \<noteq> [] \<and> hd word \<noteq> last w)"

definition check_chain ::
    "constants \<Rightarrow> future_result \<Rightarrow> bool \<Rightarrow> message \<Rightarrow> string \<Rightarrow> bot \<Rightarrow> db \<Rightarrow> result" where
  "check_chain K fut future m word s d =
     prepend [Execute (Select_exists_used_words (guild_id m) word)]
       (if (guild_id m, word) \<in> used_words_tbl d then
          (Already_used, s\<lparr>busy := busy s - 1\<rparr>, d,
           [Add_reaction Warning_sign, Channel_send (Already_used_text word)])
        else if same_member_twice K s m then
          (case last_letter (current_word (config s)) of
             Inl e \<Rightarrow> (Raised e, s, d, [])
           | Inr c \<Rightarrow>
              handle_mistake K m Wrong_member
                (Mistake_text Wrong_member (author_id m) (chain_length_part (config s))
                   (Some c) (high_score (config s)))
                s d)
        else if wrong_starting_letter s word then
          handle_mistake K m Wrong_letter
            (Mistake_text Wrong_letter (author_id m) (chain_length_part (config s))
               (case current_word (config s) of None \<Rightarrow> None | Some w \<Rightarrow> Some (last w))
               (high_score (config s)))
            s d
        else resolve_query K fut future m word s d)"

text \<open>Lines 341 to 374: whitelist, blacklist, cache, start of the query. Python's
  \<^verbatim>\<open>and\<close> and \<^verbatim>\<open>or\<close> do not evaluate their second operand when the first decides.\<close>

definition check_word ::
    "constants \<Rightarrow> future_result \<Rightarrow> message \<Rightarrow> string \<Rightarrow> bot \<Rightarrow> db \<Rightarrow> result" where
  "check_word K fut m word s d =
     (let wl = is_word_whitelisted word (guild_id m) d;
          word_whitelisted = fst wl;
          bl = is_word_blacklisted K word (Some (guild_id m)) (Some d);
          ca = is_word_in_cache word d
      in if word_whitelisted then
           prepend (snd wl) (check_chain K fut False m word s d)
         else if fst bl then
           (Blacklisted, s\<lparr>busy := busy s - 1\<rparr>, d,
            snd wl @ snd bl @ [Add_reaction Warning_sign, Channel_send Blacklisted_text])
         else if fst ca then
           prepend (snd wl @ snd bl @ snd ca) (check_chain K fut False m word s d)
         else
           prepend (snd wl @ snd bl @ snd ca @ [Start_api_query word])
             (check_chain K fut True m word s d))"

text \<open>\<^verbatim>\<open>Bot.on_message\<close> up to its call of \<^verbatim>\<open>schedule_busy_work\<close>, which is the last
  thing it does after a mistake and after an accepted word (the event
  \<open>Schedule_busy_work\<close>). What that call does is the deferred work below.\<close>

definition on_message ::
    "constants \<Rightarrow> future_result \<Rightarrow> message \<Rightarrow> bot \<Rightarrow> db \<Rightarrow> result" where
  "on_message K fut m s d =
     (if author_id m = user s then (Ignored, s, d, [])
      else if Some (channel m) \<noteq> channel_id (config s) then (Ignored, s, d, [])
      else (let word = lower K (content m) in
            if \<not> list_all (\<lambda>c. c \<in> set (POSSIBLE_CHARACTERS K)) word then (Ignored, s, d, [])
            else if length word = 0 then (Ignored, s, d, [])
            else if length word = 1 then
              (Single_letter, s, d, [Add_reaction Warning_sign, Channel_send Single_letter_text])
            else (let au = add_user d (guild_id m) (author_id m)
                  in prepend (snd au) (check_word K fut m word (enter s m) (fst au)))))"

text \<open>A run of messages, each with the answer the dictionary service would give.\<close>

fun run :: "constants \<Rightarrow> (future_result \<times> message) list \<Rightarrow> bot \<Rightarrow> db \<Rightarrow> bot \<times> db" where
  "run K [] s d = (s, d)"
| "run K ((fut, m) # ms) s d =
     (let r = on_message K fut m s d in run K ms (bot_of r) (db_of r))"

section \<open>The deferred work\<close>

text \<open>
  \<^verbatim>\<open>Bot.schedule_busy_work\<close> sleeps for five seconds, decrements the busy counter and calls
  \<^verbatim>\<open>do_busy_work\<close>, which works only when the counter is back at zero: it dumps the config,
  brings the failed role and the reliable role up to date and writes the pending words to the
  cache. The functions below give what this does to the bot and the database when no other
  message is handled during the sleep. What Discord answers is a parameter: the members that
  hold the failed role, and whether \<^verbatim>\<open>fetch_member\<close> finds a member (it raises
  \<^verbatim>\<open>NotFound\<close> when it does not); other failures of the calls to Discord are not modelled.
  The config file and the roles of the members are no part of the bot's state, so the dump
  and the changes of roles are left out.
\<close>

record guild =
  failed_role_members :: "int list"
  fetch_member_finds :: "int \<Rightarrow> bool"

text \<open>\<^verbatim>\<open>Bot.add_remove_failed_role\<close>: the designation is dropped when the designated member
  neither holds the role nor is found in the server.\<close>

definition add_remove_failed_role :: "guild \<Rightarrow> bot \<Rightarrow> bot" where
  "add_remove_failed_role G s =
     (if failed_role s = None then s
      else (case failed_member_id (config s) of
              None \<Rightarrow> s
            | Some f \<Rightarrow>
               (let handled_member = (f \<noteq> 0 \<and> f \<in> set (failed_role_members G))
                in if \<not> handled_member \<and> f \<noteq> 0 \<and> \<not> fetch_member_finds G f
                   then s\<lparr>config := (config s)\<lparr>failed_member_id := None,
                                               correct_inputs_by_failed_member := 0\<rparr>\<rparr>
                   else s)))"

text \<open>\<^verbatim>\<open>Bot.add_remove_reliable_role\<close>: the set of participating users is taken and
  emptied.\<close>

definition add_remove_reliable_role :: "bot \<Rightarrow> bot" where
  "add_remove_reliable_role s =
     (if reliable_role s \<noteq> None \<and>
         (case participating_users s of None \<Rightarrow> False | Some us \<Rightarrow> us \<noteq> {})
      then s\<lparr>participating_users := None\<rparr>
      else s)"

definition do_busy_work :: "constants \<Rightarrow> guild \<Rightarrow> bot \<Rightarrow> db \<Rightarrow> db_error option \<times> bot \<times> db" where
  "do_busy_work K G s d =
     (if busy s = 0
      then add_to_cache K (add_remove_reliable_role (add_remove_failed_role G s)) d
      else (None, s, d))"

definition schedule_busy_work ::
    "constants \<Rightarrow> guild \<Rightarrow> bot \<Rightarrow> db \<Rightarrow> db_error option \<times> bot \<times> db" where
  "schedule_busy_work K G s d = do_busy_work K G (s\<lparr>busy := busy s - 1\<rparr>) d"

section \<open>The reaction policy in the words of the specification\<close>





section \<open>Example values\<close>

definition K0 :: constants where
  "K0 = \<lparr>POSSIBLE_CHARACTERS = ''abcdefghijklmnopqrstuvwxyz-'',
         GLOBAL_BLACKLIST_2_LETTER_WORDS = {''xx''},
         GLOBAL_BLACKLIST_N_LETTER_WORDS = {''badword''},
         GLOBAL_WHITELIST_3_LETTER_WORDS = {''eel''},
         SPECIAL_REACTION_EMOJIS = Map.empty,
         MISTAKE_PENALTY = 5,
         HISTORY_LENGTH = 5,
         SINGLE_PLAYER = False,
         karma_fn = (\<lambda>w h. - 1),
         lower = ascii_lower\<rparr>"

definition c0 :: config where
  "c0 = \<lparr>channel_id = Some 7, current_count = 4, current_word = Some ''apple'',
         high_score = 10, current_member_id = Some 1, put_high_score_emoji = False,
         failed_role_id = Some 3, reliable_role_id = None, failed_member_id = Some 2,
         correct_inputs_by_failed_member = 29\<rparr>"

definition s0 :: bot where
  "s0 = \<lparr>user = 99, config = c0, busy = 0, cached_words = None,
         participating_users = None, history = (\<lambda>i. []), failed_role = Some 3,
         reliable_role = None\<rparr>"

definition row0 :: member_row where
  "row0 = \<lparr>score = 3, correct = 4, wrong = 1, karma = 2\<rparr>"

definition d0 :: db where
  "d0 = \<lparr>member_tbl = [(5, 2) \<mapsto> row0], used_words_tbl = {(5, ''apple'')},
         word_cache_tbl = {''elephant''}, blacklist_tbl = {(5, ''evil'')},
         whitelist_tbl = {(5, ''emu'')}\<rparr>"

definition msg :: "int \<Rightarrow> string \<Rightarrow> message" where
  "msg a w = \<lparr>author_id = a, channel = 7, guild_id = 5, content = w\<rparr>"






section \<open>The karma scorer\<close>

text \<open>
  Modelled from the spec: the function \<^verbatim>\<open>calculate_total_karma\<close>, which \<^verbatim>\<open>main.py\<close> imports
  from \<^verbatim>\<open>data\<close> and \<^verbatim>\<open>test.py\<close> from \<^verbatim>\<open>karma_calcs\<close>, is not among the sources. The
  specification says: the base score of a word is a fixed function of the word; a negative
  base score is returned unmodified; a non-negative one is reduced by a decay proportional to
  how many of the last \<open>n\<close> submissions of the player ended in the word's last letter. The
  base table, the rate of the decay and the window are parameters.
\<close>

definition ending_count :: "nat \<Rightarrow> string \<Rightarrow> string list \<Rightarrow> nat" where
  "ending_count n word last_words =
     length (filter (\<lambda>w. w \<noteq> [] \<and> word \<noteq> [] \<and> last w = last word)
               (drop (length last_words - n) last_words))"

definition calculate_total_karma ::
    "(string \<Rightarrow> real) \<Rightarrow> real \<Rightarrow> nat \<Rightarrow> string \<Rightarrow> string list \<Rightarrow> real" where
  "calculate_total_karma base rate n word last_words =
     (let b = base word
      in if b < 0 then b
         else b - rate * real (ending_count n word last_words) * b)"

section \<open>Predicates used in the properties\<close>

text \<open>What a call that went past the length check did to the bot and the database, by
  outcome; \<open>s\<close> and \<open>d\<close> are the state after \<open>enter\<close> and \<open>add_user\<close>.\<close>

definition effect_ok :: "constants \<Rightarrow> message \<Rightarrow> string \<Rightarrow> bot \<Rightarrow> db \<Rightarrow> result \<Rightarrow> bool" where
  "effect_ok K m word s d r =
     (case outcome_of r of
        Ignored \<Rightarrow> False
      | Single_letter \<Rightarrow> False
      | Blacklisted \<Rightarrow> bot_of r = s\<lparr>busy := busy s - 1\<rparr> \<and> db_of r = d
      | Already_used \<Rightarrow> bot_of r = s\<lparr>busy := busy s - 1\<rparr> \<and> db_of r = d
      | Backend_error \<Rightarrow> bot_of r = s\<lparr>busy := busy s - 1\<rparr> \<and> db_of r = d
      | Raised e \<Rightarrow> bot_of r = s \<and> db_of r = d
      | Mistake k \<Rightarrow> bot_of r = s\<lparr>config := mistake_config s m\<rparr> \<and> db_of r = mistake_db K m d
      | Accepted \<Rightarrow> bot_of r = bot_of (accept K m word s d) \<and> db_of r = accepted_db K s m word d)"

text \<open>The events of the blacklist check, the cache and the dictionary query.\<close>

fun lookup_event :: "event \<Rightarrow> bool" where
  "lookup_event (Start_api_query w) = True"
| "lookup_event Get_query_response = True"
| "lookup_event (Execute (Select_exists_blacklist g w)) = True"
| "lookup_event (Execute (Select_exists_word_cache w)) = True"
| "lookup_event (Execute (Select_exists_member g i)) = False"
| "lookup_event (Execute (Insert_member g i)) = False"
| "lookup_event (Execute (Select_exists_whitelist g w)) = False"
| "lookup_event (Execute (Select_exists_used_words g w)) = False"
| "lookup_event (Execute (Update_member_correct g i k)) = False"
| "lookup_event (Execute (Update_member_wrong g i)) = False"
| "lookup_event (Execute (Insert_used_words g w)) = False"
| "lookup_event Commit = False"
| "lookup_event (Add_reaction e) = False"
| "lookup_event (Channel_send t) = False"
| "lookup_event Schedule_busy_work = False"


definition karma_nonneg :: "db \<Rightarrow> bool" where
  "karma_nonneg d = (\<forall>key row. member_tbl d key = Some row \<longrightarrow> 0 \<le> karma row)"

text \<open>The message passes the checks in front of the length check: it is not the bot's own, it
  is in the game's channel, and its characters are allowed.\<close>

definition in_play :: "constants \<Rightarrow> bot \<Rightarrow> message \<Rightarrow> bool" where
  "in_play K s m =
     (author_id m \<noteq> user s \<and> channel_id (config s) = Some (channel m) \<and>
      list_all (\<lambda>c. c \<in> set (POSSIBLE_CHARACTERS K)) (lower K (content m)))"

section \<open>Properties\<close>

subsection \<open>Results\<close>

lemma prepend_simps:
  "outcome_of (prepend t r) = outcome_of r"
  "bot_of (prepend t r) = bot_of r"
  "db_of (prepend t r) = db_of r"
  "trace_of (prepend t r) = t @ trace_of r"
  by (simp_all add: prepend_def outcome_of_def bot_of_def db_of_def trace_of_def)

lemma tuple_simps:
  "outcome_of (a, b, c, e) = a"
  "bot_of (a, b, c, e) = b"
  "db_of (a, b, c, e) = c"
  "trace_of (a, b, c, e) = e"
  by (simp_all add: outcome_of_def bot_of_def db_of_def trace_of_def)

subsection \<open>The effect of a call, by outcome\<close>

lemma effect_ok_prepend: "effect_ok K m word s d (prepend t r) = effect_ok K m word s d r"
  by (simp add: effect_ok_def prepend_simps split: outcome.splits)

lemma effect_ok_accept: "effect_ok K m word s d (accept K m word s d)"
  by (simp add: effect_ok_def accept_def Let_def tuple_simps)

lemma effect_ok_handle_mistake: "effect_ok K m word s d (handle_mistake K m k t s d)"
  by (simp add: effect_ok_def handle_mistake_def tuple_simps)

lemma effect_ok_resolve_query: "effect_ok K m word s d (resolve_query K fut future m word s d)"
  by (simp add: resolve_query_def Let_def effect_ok_prepend effect_ok_accept effect_ok_handle_mistake)
     (simp add: effect_ok_def tuple_simps)

lemma effect_ok_check_chain: "effect_ok K m word s d (check_chain K fut future m word s d)"
  by (simp add: check_chain_def effect_ok_prepend effect_ok_resolve_query effect_ok_handle_mistake
        split: sum.splits)
     (simp add: effect_ok_def tuple_simps)

lemma effect_ok_check_word: "effect_ok K m word s d (check_word K fut m word s d)"
  by (simp add: check_word_def Let_def effect_ok_prepend effect_ok_check_chain)
     (simp add: effect_ok_def tuple_simps)

lemma on_message_effect:
  "(outcome_of (on_message K fut m s d) \<in> {Ignored, Single_letter} \<and>
      bot_of (on_message K fut m s d) = s \<and> db_of (on_message K fut m s d) = d) \<or>
   effect_ok K m (lower K (content m)) (enter s m) (fst (add_user d (guild_id m) (author_id m)))
      (on_message K fut m s d)"
  by (simp add: on_message_def Let_def effect_ok_prepend effect_ok_check_word tuple_simps)

subsection \<open>Definitions unfolded to evaluate the examples\<close>

lemmas ev_defs = on_message_def K0_def s0_def c0_def d0_def row0_def msg_def ascii_lower_def
  ascii_lower_char_def check_word_def check_chain_def resolve_query_def add_user_def enter_def Let_def
  is_word_whitelisted_def is_word_blacklisted_def is_word_in_cache_def
  same_member_twice_def wrong_starting_letter_def get_query_response_def
  API_RESPONSE_ERROR_def API_RESPONSE_WORD_DOESNT_EXIST_def API_RESPONSE_WORD_EXISTS_def
  prepend_simps tuple_simps handle_mistake_def accept_def last_letter_def chain_length_part_def

subsection \<open>The reaction marker\<close>

















subsection \<open>Single-letter words\<close>

text \<open>
  C8. A message whose lower-cased content has length 1 changes neither the bot (chain count,
  current word, current holder, everything else) nor the database (score, karma), and its
  outcome is never a mistake; when the message is in play (not the bot's own, in the game's
  channel, over the allowed characters) the bot answers with the warning reaction and the
  text for single letters, and nothing else.
\<close>

theorem single_letter_soft_rejection:
  assumes "length (lower K (content m)) = 1"
  shows "bot_of (on_message K fut m s d) = s \<and> db_of (on_message K fut m s d) = d \<and>
         outcome_of (on_message K fut m s d) \<in> {Ignored, Single_letter} \<and>
         (in_play K s m \<longrightarrow>
            on_message K fut m s d =
              (Single_letter, s, d, [Add_reaction Warning_sign, Channel_send Single_letter_text]))"
  using assms by (auto simp add: on_message_def Let_def tuple_simps in_play_def)

theorem single_letter_soft_rejection_witness:
  "length (lower K0 (content (msg 1 ''E''))) = 1 \<and> in_play K0 s0 (msg 1 ''E'') \<and>
   on_message K0 Timed_out (msg 1 ''E'') s0 d0 =
     (Single_letter, s0, d0, [Add_reaction Warning_sign, Channel_send Single_letter_text])"
proof -
  have len: "length (lower K0 (content (msg 1 ''E''))) = 1"
    by (simp add: msg_def K0_def ascii_lower_def)
  have play: "in_play K0 s0 (msg 1 ''E'')"
    by (simp add: in_play_def K0_def s0_def c0_def msg_def ascii_lower_def ascii_lower_char_def)
  from single_letter_soft_rejection [OF len, where fut = Timed_out and s = s0 and d = d0] play len
  show ?thesis by simp
qed

subsection \<open>Whitelisted words\<close>

lemma no_lookup_accept: "\<not> list_ex lookup_event (trace_of (accept K m word s d))"
  by (simp add: accept_def Let_def tuple_simps)

lemma no_lookup_handle_mistake: "\<not> list_ex lookup_event (trace_of (handle_mistake K m k t s d))"
  by (simp add: handle_mistake_def tuple_simps)

lemma no_lookup_check_chain:
  "\<not> list_ex lookup_event (trace_of (check_chain K fut False m word s d))"
  by (simp add: check_chain_def resolve_query_def prepend_simps tuple_simps
        no_lookup_accept no_lookup_handle_mistake split: sum.splits)

lemma no_lookup_add_user: "\<not> list_ex lookup_event (snd (add_user d g a))"
  by (simp add: add_user_def)

lemma check_word_whitelisted:
  "(guild_id m, word) \<in> whitelist_tbl d \<Longrightarrow>
   check_word K fut m word s d =
     prepend [Execute (Select_exists_whitelist (guild_id m) word)]
       (check_chain K fut False m word s d)"
  by (simp add: check_word_def is_word_whitelisted_def Let_def)

lemma check_chain_trace_hd:
  "\<exists>rest. trace_of (check_chain K fut future m word s d) =
     Execute (Select_exists_used_words (guild_id m) word) # rest"
  by (simp add: check_chain_def prepend_simps)

lemma update_member_lists:
  "update_member (d\<lparr>blacklist_tbl := bl, word_cache_tbl := wc\<rparr>) g a f =
   (update_member d g a f)\<lparr>blacklist_tbl := bl, word_cache_tbl := wc\<rparr>"
  by (simp add: update_member_def split: option.splits)

lemma check_chain_indep:
  "check_chain (K\<lparr>GLOBAL_BLACKLIST_2_LETTER_WORDS := g2, GLOBAL_BLACKLIST_N_LETTER_WORDS := gn,
                  GLOBAL_WHITELIST_3_LETTER_WORDS := w3\<rparr>) fut' False m word s
      (d\<lparr>blacklist_tbl := bl, word_cache_tbl := wc\<rparr>) =
   (outcome_of (check_chain K fut False m word s d),
    bot_of (check_chain K fut False m word s d),
    (db_of (check_chain K fut False m word s d))\<lparr>blacklist_tbl := bl, word_cache_tbl := wc\<rparr>,
    trace_of (check_chain K fut False m word s d))"
  by (simp add: check_chain_def resolve_query_def prepend_def tuple_simps accept_def Let_def
        handle_mistake_def mistake_db_def accepted_db_def update_member_lists same_member_twice_def
        split: sum.splits)

lemma add_user_whitelist: "whitelist_tbl (fst (add_user d g a)) = whitelist_tbl d"
  by (simp add: add_user_def)

lemma add_user_lists:
  "add_user (d\<lparr>blacklist_tbl := bl, word_cache_tbl := wc\<rparr>) g a =
   ((fst (add_user d g a))\<lparr>blacklist_tbl := bl, word_cache_tbl := wc\<rparr>, snd (add_user d g a))"
  by (simp add: add_user_def)

lemma whitelisted_no_lookup:
  assumes "(guild_id m, lower K (content m)) \<in> whitelist_tbl d"
  shows "\<not> list_ex lookup_event (trace_of (on_message K fut m s d))"
  using assms
  by (simp add: on_message_def Let_def tuple_simps prepend_simps check_word_whitelisted
        add_user_whitelist no_lookup_check_chain no_lookup_add_user)

lemma whitelisted_indep:
  assumes "(guild_id m, lower K (content m)) \<in> whitelist_tbl d"
  shows "on_message (K\<lparr>GLOBAL_BLACKLIST_2_LETTER_WORDS := g2, GLOBAL_BLACKLIST_N_LETTER_WORDS := gn,
                  GLOBAL_WHITELIST_3_LETTER_WORDS := w3\<rparr>) fut' m s
            (d\<lparr>blacklist_tbl := bl, word_cache_tbl := wc\<rparr>) =
         (outcome_of (on_message K fut m s d), bot_of (on_message K fut m s d),
          (db_of (on_message K fut m s d))\<lparr>blacklist_tbl := bl, word_cache_tbl := wc\<rparr>,
          trace_of (on_message K fut m s d))"
  using assms
  by (simp add: on_message_def Let_def tuple_simps prepend_simps check_word_whitelisted
        add_user_whitelist add_user_lists check_chain_indep [where fut = fut and fut' = fut'])
     (simp add: prepend_def tuple_simps)

lemma whitelisted_direct:
  assumes "(guild_id m, lower K (content m)) \<in> whitelist_tbl d"
      and "outcome_of (on_message K fut m s d) \<notin> {Ignored, Single_letter}"
  shows "\<exists>rest. trace_of (on_message K fut m s d) =
           snd (add_user d (guild_id m) (author_id m)) @
           Execute (Select_exists_whitelist (guild_id m) (lower K (content m))) #
           Execute (Select_exists_used_words (guild_id m) (lower K (content m))) # rest"
  using assms check_chain_trace_hd [of K fut False m "lower K (content m)" "enter s m"
                                      "fst (add_user d (guild_id m) (author_id m))"]
  by (auto simp add: on_message_def Let_def tuple_simps prepend_simps check_word_whitelisted
        add_user_whitelist split: if_splits)

text \<open>
  C1. When the word is in the server's whitelist, no message is processed with a blacklist
  query, a cache query or a dictionary query (none is started, none is resolved): the trace
  has no such event, and the result is the same whatever the global lists, the server's
  blacklist, the word cache and the dictionary service hold. A message that gets past the
  length check goes from the whitelist query straight to the repetition query.
\<close>

theorem whitelisted_skips_blacklist_and_lookup:
  assumes "(guild_id m, lower K (content m)) \<in> whitelist_tbl d"
  shows "\<not> list_ex lookup_event (trace_of (on_message K fut m s d)) \<and>
         on_message (K\<lparr>GLOBAL_BLACKLIST_2_LETTER_WORDS := g2,
                       GLOBAL_BLACKLIST_N_LETTER_WORDS := gn,
                       GLOBAL_WHITELIST_3_LETTER_WORDS := w3\<rparr>) fut' m s
            (d\<lparr>blacklist_tbl := bl, word_cache_tbl := wc\<rparr>) =
           (outcome_of (on_message K fut m s d), bot_of (on_message K fut m s d),
            (db_of (on_message K fut m s d))\<lparr>blacklist_tbl := bl, word_cache_tbl := wc\<rparr>,
            trace_of (on_message K fut m s d)) \<and>
         (outcome_of (on_message K fut m s d) \<notin> {Ignored, Single_letter} \<longrightarrow>
            (\<exists>rest. trace_of (on_message K fut m s d) =
               snd (add_user d (guild_id m) (author_id m)) @
               Execute (Select_exists_whitelist (guild_id m) (lower K (content m))) #
               Execute (Select_exists_used_words (guild_id m) (lower K (content m))) # rest))"
proof (intro conjI impI)
  show "\<not> list_ex lookup_event (trace_of (on_message K fut m s d))"
    by (rule whitelisted_no_lookup [OF assms])
  show "on_message (K\<lparr>GLOBAL_BLACKLIST_2_LETTER_WORDS := g2,
                       GLOBAL_BLACKLIST_N_LETTER_WORDS := gn,
                       GLOBAL_WHITELIST_3_LETTER_WORDS := w3\<rparr>) fut' m s
            (d\<lparr>blacklist_tbl := bl, word_cache_tbl := wc\<rparr>) =
           (outcome_of (on_message K fut m s d), bot_of (on_message K fut m s d),
            (db_of (on_message K fut m s d))\<lparr>blacklist_tbl := bl, word_cache_tbl := wc\<rparr>,
            trace_of (on_message K fut m s d))"
    by (rule whitelisted_indep [OF assms])
next
  assume "outcome_of (on_message K fut m s d) \<notin> {Ignored, Single_letter}"
  with assms show "\<exists>rest. trace_of (on_message K fut m s d) =
               snd (add_user d (guild_id m) (author_id m)) @
               Execute (Select_exists_whitelist (guild_id m) (lower K (content m))) #
               Execute (Select_exists_used_words (guild_id m) (lower K (content m))) # rest"
    by (rule whitelisted_direct)
qed

theorem whitelisted_skips_blacklist_and_lookup_witness:
  "(guild_id (msg 2 ''emu''), lower K0 (content (msg 2 ''emu''))) \<in> whitelist_tbl d0 \<and>
   outcome_of (on_message K0 Timed_out (msg 2 ''emu'') s0 d0) = Accepted \<and>
   \<not> list_ex lookup_event (trace_of (on_message K0 Timed_out (msg 2 ''emu'') s0 d0))"
proof -
  have wl: "(guild_id (msg 2 ''emu''), lower K0 (content (msg 2 ''emu''))) \<in> whitelist_tbl d0"
    by (simp add: msg_def d0_def K0_def ascii_lower_def ascii_lower_char_def)
  have acc: "outcome_of (on_message K0 Timed_out (msg 2 ''emu'') s0 d0) = Accepted"
    by (simp add: ev_defs)
  from whitelisted_skips_blacklist_and_lookup [OF wl, where fut = Timed_out and s = s0]
    wl acc
  show ?thesis by simp
qed

subsection \<open>A dictionary query that ends in an error\<close>

lemma get_query_response_error_cases:
  "get_query_response K Timed_out = API_RESPONSE_ERROR"
  "get_query_response K Request_failed = API_RESPONSE_ERROR"
  "400 \<le> code \<Longrightarrow> get_query_response K (Result (Response code b)) = API_RESPONSE_ERROR"
  "code < 400 \<Longrightarrow> get_query_response K (Result (Response code None)) = API_RESPONSE_ERROR"
  by (simp_all add: get_query_response_def best_match_equals_def)

lemma gqr_accept: "Get_query_response \<notin> set (trace_of (accept K m word s d))"
  by (simp add: accept_def Let_def tuple_simps)

lemma gqr_handle_mistake: "Get_query_response \<notin> set (trace_of (handle_mistake K m k t s d))"
  by (simp add: handle_mistake_def tuple_simps)

lemma gqr_resolve_query:
  "Get_query_response \<in> set (trace_of (resolve_query K fut future m word s d)) \<Longrightarrow>
   get_query_response K fut = API_RESPONSE_ERROR \<Longrightarrow>
   outcome_of (resolve_query K fut future m word s d) = Backend_error"
  by (simp add: resolve_query_def Let_def prepend_simps tuple_simps gqr_accept
        API_RESPONSE_ERROR_def API_RESPONSE_WORD_DOESNT_EXIST_def split: if_splits)

lemma gqr_check_chain:
  "Get_query_response \<in> set (trace_of (check_chain K fut future m word s d)) \<Longrightarrow>
   get_query_response K fut = API_RESPONSE_ERROR \<Longrightarrow>
   outcome_of (check_chain K fut future m word s d) = Backend_error"
  by (simp add: check_chain_def prepend_simps tuple_simps gqr_handle_mistake gqr_resolve_query
        split: if_splits sum.splits)

lemma gqr_check_word:
  "Get_query_response \<in> set (trace_of (check_word K fut m word s d)) \<Longrightarrow>
   get_query_response K fut = API_RESPONSE_ERROR \<Longrightarrow>
   outcome_of (check_word K fut m word s d) = Backend_error"
  by (simp add: check_word_def Let_def prepend_simps tuple_simps gqr_check_chain
        is_word_whitelisted_def is_word_blacklisted_def is_word_in_cache_def
        split: if_splits option.splits)

lemma gqr_on_message:
  "Get_query_response \<in> set (trace_of (on_message K fut m s d)) \<Longrightarrow>
   get_query_response K fut = API_RESPONSE_ERROR \<Longrightarrow>
   outcome_of (on_message K fut m s d) = Backend_error"
  by (simp add: on_message_def Let_def prepend_simps tuple_simps gqr_check_word add_user_def
        split: if_splits)

text \<open>
  C2, as amended. When the dictionary query of a message is resolved and the answer is an
  error, the outcome is the backend error, and the bot is as before except that the author
  is in the set of participating users: the config (chain count, current word, current
  holder, high score, failed member), the busy counter, the pending cache words and the
  histories are unchanged. The database is as before except that an author without a row
  has got a row of zeros: the used words, the word cache and the lists are unchanged, and an
  existing row is unchanged.
\<close>

theorem backend_error_leaves_game_state:
  assumes "Get_query_response \<in> set (trace_of (on_message K fut m s d))"
      and "get_query_response K fut = API_RESPONSE_ERROR"
  shows "outcome_of (on_message K fut m s d) = Backend_error \<and>
         bot_of (on_message K fut m s d) =
           s\<lparr>participating_users := participating_users (enter s m)\<rparr> \<and>
         db_of (on_message K fut m s d) = fst (add_user d (guild_id m) (author_id m)) \<and>
         (member_tbl d (guild_id m, author_id m) \<noteq> None \<longrightarrow> db_of (on_message K fut m s d) = d) \<and>
         (member_tbl d (guild_id m, author_id m) = None \<longrightarrow>
            db_of (on_message K fut m s d) =
              d\<lparr>member_tbl := (member_tbl d)((guild_id m, author_id m) \<mapsto>
                   \<lparr>score = 0, correct = 0, wrong = 0, karma = 0\<rparr>)\<rparr>)"
proof -
  have o: "outcome_of (on_message K fut m s d) = Backend_error"
    using assms by (rule gqr_on_message)
  with on_message_effect [of K fut m s d]
  have e: "bot_of (on_message K fut m s d) = (enter s m)\<lparr>busy := busy (enter s m) - 1\<rparr>"
          "db_of (on_message K fut m s d) = fst (add_user d (guild_id m) (author_id m))"
    by (simp_all add: effect_ok_def)
  have "(enter s m)\<lparr>busy := busy (enter s m) - 1\<rparr> =
        s\<lparr>participating_users := participating_users (enter s m)\<rparr>"
    by (simp add: enter_def)
  with o e show ?thesis by (simp add: add_user_def)
qed

theorem backend_error_leaves_game_state_witness:
  "Get_query_response \<in> set (trace_of (on_message K0 (Result (Response 503 None)) (msg 2 ''ez'') s0 d0)) \<and>
   get_query_response K0 (Result (Response 503 None)) = API_RESPONSE_ERROR \<and>
   outcome_of (on_message K0 (Result (Response 503 None)) (msg 2 ''ez'') s0 d0) = Backend_error \<and>
   config (bot_of (on_message K0 (Result (Response 503 None)) (msg 2 ''ez'') s0 d0)) = config s0 \<and>
   db_of (on_message K0 (Result (Response 503 None)) (msg 2 ''ez'') s0 d0) = d0"
proof -
  have t: "Get_query_response \<in>
      set (trace_of (on_message K0 (Result (Response 503 None)) (msg 2 ''ez'') s0 d0))"
    by (simp add: ev_defs)
  have e: "get_query_response K0 (Result (Response 503 None)) = API_RESPONSE_ERROR"
    by (simp add: get_query_response_def)
  have r: "member_tbl d0 (guild_id (msg 2 ''ez''), author_id (msg 2 ''ez'')) \<noteq> None"
    by (simp add: d0_def msg_def)
  from backend_error_leaves_game_state [OF t e] t e r show ?thesis
    by (simp add: add_user_def d0_def msg_def)
qed

text \<open>That nothing at all changes fails for a player without a row: the row is inserted and
  committed before the word is looked at, and the player joins the participating users.\<close>

theorem backend_error_counterexample:
  "Get_query_response \<in> set (trace_of (on_message K0 Timed_out (msg 8 ''ez'') s0 d0)) \<and>
   get_query_response K0 Timed_out = API_RESPONSE_ERROR \<and>
   member_tbl d0 (5, 8) = None \<and>
   member_tbl (db_of (on_message K0 Timed_out (msg 8 ''ez'') s0 d0)) (5, 8) =
     Some \<lparr>score = 0, correct = 0, wrong = 0, karma = 0\<rparr> \<and>
   participating_users s0 = None \<and>
   participating_users (bot_of (on_message K0 Timed_out (msg 8 ''ez'') s0 d0)) = Some {8}"
  by (simp add: ev_defs)

subsection \<open>Rejections and the chain count\<close>

text \<open>
  C3, as amended. A mistake (wrong member, wrong starting letter, word that does not exist)
  resets the chain count to zero and keeps the current word and the current holder. A soft
  rejection (single letter, blacklisted, already used) leaves the whole config as it was:
  the chain count, the current word and the current holder are all unchanged.
\<close>

theorem mistake_resets_soft_rejection_keeps:
  "(outcome_of (on_message K fut m s d) = Mistake k \<longrightarrow>
      current_count (config (bot_of (on_message K fut m s d))) = 0 \<and>
      current_word (config (bot_of (on_message K fut m s d))) = current_word (config s) \<and>
      current_member_id (config (bot_of (on_message K fut m s d))) = current_member_id (config s)) \<and>
   (outcome_of (on_message K fut m s d) \<in> {Single_letter, Blacklisted, Already_used} \<longrightarrow>
      config (bot_of (on_message K fut m s d)) = config s)"
  using on_message_effect [of K fut m s d]
  by (auto simp add: effect_ok_def mistake_config_def reset_def enter_def)

theorem mistake_resets_soft_rejection_keeps_witness:
  "outcome_of (on_message K0 Timed_out (msg 1 ''eagle'') s0 d0) = Mistake Wrong_member \<and>
   current_count (config s0) = 4 \<and>
   current_count (config (bot_of (on_message K0 Timed_out (msg 1 ''eagle'') s0 d0))) = 0 \<and>
   current_word (config (bot_of (on_message K0 Timed_out (msg 1 ''eagle'') s0 d0))) =
     Some ''apple'' \<and>
   current_member_id (config (bot_of (on_message K0 Timed_out (msg 1 ''eagle'') s0 d0))) =
     Some 1 \<and>
   outcome_of (on_message K0 Timed_out (msg 8 ''apple'') s0 d0) = Already_used \<and>
   config (bot_of (on_message K0 Timed_out (msg 8 ''apple'') s0 d0)) = config s0"
proof -
  have o: "outcome_of (on_message K0 Timed_out (msg 1 ''eagle'') s0 d0) = Mistake Wrong_member"
    by (simp add: ev_defs)
  have u: "outcome_of (on_message K0 Timed_out (msg 8 ''apple'') s0 d0) = Already_used"
    by (simp add: ev_defs)
  have c: "current_count (config s0) = 4" "current_word (config s0) = Some ''apple''"
    "current_member_id (config s0) = Some 1"
    by (simp_all add: s0_def c0_def)
  from mistake_resets_soft_rejection_keeps
         [where K = K0 and fut = Timed_out and m = "msg 1 ''eagle''" and s = s0 and d = d0
            and k = Wrong_member]
       mistake_resets_soft_rejection_keeps
         [where K = K0 and fut = Timed_out and m = "msg 8 ''apple''" and s = s0 and d = d0
            and k = Wrong_member]
       o u c
  show ?thesis by simp
qed

text \<open>That every rejection resets the count fails for a soft rejection: the count of a blacklisted word's
  chain stays 4.\<close>

theorem soft_rejection_counterexample:
  "outcome_of (on_message K0 Timed_out (msg 8 ''xx'') s0 d0) = Blacklisted \<and>
   current_count (config s0) = 4 \<and>
   current_count (config (bot_of (on_message K0 Timed_out (msg 8 ''xx'') s0 d0))) = 4"
  by (simp add: ev_defs)

subsection \<open>The karma floor\<close>

lemma karma_nonneg_add_user: "karma_nonneg d \<Longrightarrow> karma_nonneg (fst (add_user d g a))"
  by (auto simp add: karma_nonneg_def add_user_def)

lemma karma_nonneg_update_member:
  "karma_nonneg d \<Longrightarrow> (\<And>r. 0 \<le> karma (f r)) \<Longrightarrow> karma_nonneg (update_member d g a f)"
  by (auto simp add: karma_nonneg_def update_member_def split: option.splits if_splits)

lemma karma_nonneg_mistake_db: "karma_nonneg d \<Longrightarrow> karma_nonneg (mistake_db K m d)"
  unfolding mistake_db_def by (rule karma_nonneg_update_member) simp_all

lemma karma_nonneg_used: "karma_nonneg (d\<lparr>used_words_tbl := u\<rparr>) = karma_nonneg d"
  by (simp add: karma_nonneg_def)

lemma karma_nonneg_accepted_db: "karma_nonneg d \<Longrightarrow> karma_nonneg (accepted_db K s m word d)"
  unfolding accepted_db_def Let_def karma_nonneg_used
  by (rule karma_nonneg_update_member) simp_all

lemma karma_nonneg_on_message:
  "karma_nonneg d \<Longrightarrow> karma_nonneg (db_of (on_message K fut m s d))"
  using on_message_effect [of K fut m s d]
  by (auto simp add: effect_ok_def karma_nonneg_add_user karma_nonneg_mistake_db
        karma_nonneg_accepted_db split: outcome.splits)

lemma karma_nonneg_run: "karma_nonneg d \<Longrightarrow> karma_nonneg (snd (run K ms s d))"
proof (induction ms arbitrary: s d)
  case Nil
  then show ?case by simp
next
  case (Cons x ms)
  obtain fut m where x: "x = (fut, m)" by (cases x)
  from Cons.prems have "karma_nonneg (db_of (on_message K fut m s d))"
    by (rule karma_nonneg_on_message)
  then show ?case unfolding x by (simp add: Let_def Cons.IH)
qed

lemma karma_clamped_on_message:
  assumes "outcome_of (on_message K fut m s d) = Mistake k \<or>
           outcome_of (on_message K fut m s d) = Accepted"
      and "member_tbl (db_of (on_message K fut m s d)) (guild_id m, author_id m) = Some row"
  shows "0 \<le> karma row"
  using assms(1)
proof
  assume "outcome_of (on_message K fut m s d) = Mistake k"
  with on_message_effect [of K fut m s d]
  have "db_of (on_message K fut m s d) =
          mistake_db K m (fst (add_user d (guild_id m) (author_id m)))"
    by (simp add: effect_ok_def)
  with assms(2) show ?thesis
    by (auto simp add: mistake_db_def update_member_def split: option.splits)
next
  assume "outcome_of (on_message K fut m s d) = Accepted"
  with on_message_effect [of K fut m s d]
  have "db_of (on_message K fut m s d) =
          accepted_db K (enter s m) m (lower K (content m))
            (fst (add_user d (guild_id m) (author_id m)))"
    by (simp add: effect_ok_def)
  with assms(2) show ?thesis
    by (auto simp add: accepted_db_def Let_def update_member_def split: option.splits)
qed

text \<open>
  C5. If no stored karma is below zero, none is after any run of messages, whatever the
  dictionary service answers, whatever the karma of a word and whatever the penalty: both
  updates of the column store the maximum of zero and the new value, and a new row starts
  at zero. Whatever was stored before, the karma of the author is not below zero after a
  mistake and after an accepted word.
\<close>

theorem karma_never_negative:
  "(karma_nonneg d \<longrightarrow> karma_nonneg (snd (run K ms s d))) \<and>
   ((outcome_of (on_message K fut m s d) = Mistake k \<or>
     outcome_of (on_message K fut m s d) = Accepted) \<and>
    member_tbl (db_of (on_message K fut m s d)) (guild_id m, author_id m) = Some row \<longrightarrow>
      0 \<le> karma row)"
proof (intro conjI impI)
  assume "karma_nonneg d"
  then show "karma_nonneg (snd (run K ms s d))"
    by (rule karma_nonneg_run)
next
  assume "(outcome_of (on_message K fut m s d) = Mistake k \<or>
           outcome_of (on_message K fut m s d) = Accepted) \<and>
          member_tbl (db_of (on_message K fut m s d)) (guild_id m, author_id m) = Some row"
  then show "0 \<le> karma row"
    using karma_clamped_on_message [of K fut m s d k row] by simp
qed

theorem karma_never_negative_witness:
  "karma_nonneg d0 \<and>
   member_tbl d0 (5, 2) = Some \<lparr>score = 3, correct = 4, wrong = 1, karma = 2\<rparr> \<and>
   outcome_of (on_message K0 Timed_out (msg 2 ''zebra'') s0 d0) = Mistake Wrong_letter \<and>
   member_tbl (db_of (on_message K0 Timed_out (msg 2 ''zebra'') s0 d0)) (5, 2) =
     Some \<lparr>score = 2, correct = 4, wrong = 2, karma = 0\<rparr> \<and>
   outcome_of (on_message K0 Timed_out (msg 3 ''emu'') s0 d0) = Accepted \<and>
   member_tbl (db_of (on_message K0 Timed_out (msg 3 ''emu'') s0 d0)) (5, 3) =
     Some \<lparr>score = 1, correct = 1, wrong = 0, karma = 0\<rparr> \<and>
   karma_nonneg (snd (run K0 [(Timed_out, msg 2 ''zebra''), (Timed_out, msg 3 ''emu'')] s0 d0))"
proof -
  have h: "karma_nonneg d0"
    by (simp add: karma_nonneg_def d0_def row0_def)
  have r: "member_tbl d0 (5, 2) = Some \<lparr>score = 3, correct = 4, wrong = 1, karma = 2\<rparr>"
    by (simp add: d0_def row0_def)
  have oz: "outcome_of (on_message K0 Timed_out (msg 2 ''zebra'') s0 d0) = Mistake Wrong_letter"
    by (simp add: ev_defs)
  have z: "member_tbl (db_of (on_message K0 Timed_out (msg 2 ''zebra'') s0 d0)) (5, 2) =
     Some \<lparr>score = 2, correct = 4, wrong = 2, karma = 0\<rparr>"
    by (simp add: ev_defs mistake_db_def update_member_def)
  have oe: "outcome_of (on_message K0 Timed_out (msg 3 ''emu'') s0 d0) = Accepted"
    by (simp add: ev_defs)
  have e: "member_tbl (db_of (on_message K0 Timed_out (msg 3 ''emu'') s0 d0)) (5, 3) =
     Some \<lparr>score = 1, correct = 1, wrong = 0, karma = 0\<rparr>"
    by (simp add: ev_defs accepted_db_def update_member_def)
  from karma_never_negative
         [where d = d0 and K = K0 and s = s0 and fut = Timed_out and m = "msg 2 ''zebra''"
            and ms = "[(Timed_out, msg 2 ''zebra''), (Timed_out, msg 3 ''emu'')]"
            and k = Wrong_letter
            and row = "\<lparr>score = 2, correct = 4, wrong = 2, karma = 0\<rparr>"]
       h r oz z oe e
  show ?thesis by simp
qed

subsection \<open>Three-letter words and the global lists\<close>

lemma is_word_blacklisted_global_only:
  "is_word_blacklisted K w None conn =
     (w \<in> GLOBAL_BLACKLIST_2_LETTER_WORDS K \<or> w \<in> GLOBAL_BLACKLIST_N_LETTER_WORDS K \<or>
      (length w = 3 \<and> w \<notin> GLOBAL_WHITELIST_3_LETTER_WORDS K), [])"
  "is_word_blacklisted K w sid None =
     (w \<in> GLOBAL_BLACKLIST_2_LETTER_WORDS K \<or> w \<in> GLOBAL_BLACKLIST_N_LETTER_WORDS K \<or>
      (length w = 3 \<and> w \<notin> GLOBAL_WHITELIST_3_LETTER_WORDS K), [])"
  by (auto simp add: is_word_blacklisted_def split: option.splits)

lemma three_letter_in_play:
  assumes "length word = 3" and "word \<notin> GLOBAL_WHITELIST_3_LETTER_WORDS K"
      and "in_play K s m" and "lower K (content m) = word"
      and "(guild_id m, word) \<notin> whitelist_tbl d"
  shows "outcome_of (on_message K fut m s d) = Blacklisted \<and>
         config (bot_of (on_message K fut m s d)) = config s"
  using assms
  by (simp add: on_message_def in_play_def Let_def prepend_simps tuple_simps check_word_def
        is_word_whitelisted_def is_word_blacklisted_def add_user_whitelist enter_def)

text \<open>
  C7, as amended. A word of length 3 that is not in the global three-letter whitelist is
  blacklisted for \<^verbatim>\<open>is_word_blacklisted\<close>, whatever its other arguments; such a word
  submitted in play is softly rejected as blacklisted, the config (and with it the chain
  count) unchanged, unless it is in the server's whitelist. When \<^verbatim>\<open>server_id\<close> or
  \<^verbatim>\<open>connection\<close> is omitted, \<^verbatim>\<open>is_word_blacklisted\<close> decides on the global lists alone and
  executes no statement.
\<close>

theorem three_letter_closed_list:
  assumes "length word = 3" and "word \<notin> GLOBAL_WHITELIST_3_LETTER_WORDS K"
  shows "fst (is_word_blacklisted K word sid conn) \<and>
         (in_play K s m \<and> lower K (content m) = word \<and> (guild_id m, word) \<notin> whitelist_tbl d \<longrightarrow>
            outcome_of (on_message K fut m s d) = Blacklisted \<and>
            config (bot_of (on_message K fut m s d)) = config s) \<and>
         is_word_blacklisted K w None conn' =
           (w \<in> GLOBAL_BLACKLIST_2_LETTER_WORDS K \<or> w \<in> GLOBAL_BLACKLIST_N_LETTER_WORDS K \<or>
            (length w = 3 \<and> w \<notin> GLOBAL_WHITELIST_3_LETTER_WORDS K), []) \<and>
         is_word_blacklisted K w sid' None =
           (w \<in> GLOBAL_BLACKLIST_2_LETTER_WORDS K \<or> w \<in> GLOBAL_BLACKLIST_N_LETTER_WORDS K \<or>
            (length w = 3 \<and> w \<notin> GLOBAL_WHITELIST_3_LETTER_WORDS K), [])"
proof (intro conjI impI)
  show "fst (is_word_blacklisted K word sid conn)"
    using assms by (simp add: is_word_blacklisted_def)
next
  assume "in_play K s m \<and> lower K (content m) = word \<and> (guild_id m, word) \<notin> whitelist_tbl d"
  with assms three_letter_in_play [of word K s m d fut]
  show "outcome_of (on_message K fut m s d) = Blacklisted"
   and "config (bot_of (on_message K fut m s d)) = config s"
    by simp_all
qed (rule is_word_blacklisted_global_only)+

theorem three_letter_closed_list_witness:
  "length ''elk'' = 3 \<and> ''elk'' \<notin> GLOBAL_WHITELIST_3_LETTER_WORDS K0 \<and>
   in_play K0 s0 (msg 8 ''elk'') \<and> (guild_id (msg 8 ''elk''), ''elk'') \<notin> whitelist_tbl d0 \<and>
   outcome_of (on_message K0 Timed_out (msg 8 ''elk'') s0 d0) = Blacklisted \<and>
   config (bot_of (on_message K0 Timed_out (msg 8 ''elk'') s0 d0)) = config s0"
proof -
  have a: "length ''elk'' = 3" "''elk'' \<notin> GLOBAL_WHITELIST_3_LETTER_WORDS K0"
    by (simp_all add: K0_def)
  have b: "in_play K0 s0 (msg 8 ''elk'')" "lower K0 (content (msg 8 ''elk'')) = ''elk''"
    "(guild_id (msg 8 ''elk''), ''elk'') \<notin> whitelist_tbl d0"
    by (simp_all add: in_play_def K0_def s0_def c0_def d0_def msg_def ascii_lower_def ascii_lower_char_def)
  from three_letter_closed_list
         [OF a, where s = s0 and m = "msg 8 ''elk''" and d = d0 and fut = Timed_out] a b
  show ?thesis by simp
qed

text \<open>Without the proviso the property fails, for a word in the server's whitelist: \<open>emu\<close> has three
  letters and is not in the global whitelist, and it is accepted.\<close>

theorem three_letter_counterexample:
  "length ''emu'' = 3 \<and> ''emu'' \<notin> GLOBAL_WHITELIST_3_LETTER_WORDS K0 \<and>
   in_play K0 s0 (msg 2 ''emu'') \<and>
   fst (is_word_blacklisted K0 ''emu'' (Some 5) (Some d0)) \<and>
   outcome_of (on_message K0 Timed_out (msg 2 ''emu'') s0 d0) = Accepted \<and>
   current_count (config (bot_of (on_message K0 Timed_out (msg 2 ''emu'') s0 d0))) = 5"
  by (simp add: ev_defs in_play_def accepted_config_def update_current_def reaction_emoji_def
        special_emojis_get_def)

subsection \<open>The word cache\<close>

text \<open>With the column's own name the insert adds the word, and a second insert of the same
  word changes nothing.\<close>

lemma insert_or_ignore_column_word:
  "execute_insert_or_ignore_word_cache ''word'' w d =
     Inr (d\<lparr>word_cache_tbl := insert w (word_cache_tbl d)\<rparr>)"
  "w \<in> word_cache_tbl d \<Longrightarrow> execute_insert_or_ignore_word_cache ''word'' w d = Inr d"
  by (simp_all add: execute_insert_or_ignore_word_cache_def word_cache_columns_def insert_absorb)

lemma add_words_unchanged: "add_words K ws d = Inr d' \<Longrightarrow> d' = d"
  by (induction ws) (auto simp add: execute_insert_or_ignore_word_cache_def
        word_cache_columns_def split: if_splits)

lemma add_to_cache_db_unchanged: "snd (snd (add_to_cache K s d)) = d"
  by (auto simp add: add_to_cache_def Let_def dest: add_words_unchanged
        split: option.splits sum.splits)

lemma add_words_fails:
  "\<exists>w \<in> set ws. \<not> fst (is_word_blacklisted K w None None) \<Longrightarrow>
   add_words K ws d = Inl (CompileError ''words'')"
  by (induction ws) (auto simp add: execute_insert_or_ignore_word_cache_def
        word_cache_columns_def)

text \<open>
  C6. Adding a word to the cache is meant to leave it in the cache, a second time without a
  fault, and to skip the globally blacklisted words. The statement of \<^verbatim>\<open>add_to_cache\<close>
  gives the word for the name \<^verbatim>\<open>words\<close>, which is no column of \<^verbatim>\<open>word_cache\<close>
  (\<^verbatim>\<open>word_import.py\<close> writes \<^verbatim>\<open>word=word\<close>): with the pending word \<open>hello\<close>, which
  is not globally blacklisted, the call ends in the error of the statement, the pending words
  are gone, and the cache does not hold the word.
\<close>

theorem add_to_cache_raises_compile_error:
  "\<not> fst (is_word_blacklisted K0 ''hello'' None None) \<and>
   add_to_cache K0 (s0\<lparr>cached_words := Some [''hello'']\<rparr>) d0 =
     (Some (CompileError ''words''), s0\<lparr>cached_words := None\<rparr>, d0) \<and>
   ''hello'' \<notin> word_cache_tbl d0"
  by (simp add: add_to_cache_def is_word_blacklisted_def K0_def d0_def
        execute_insert_or_ignore_word_cache_def word_cache_columns_def)

subsection \<open>The failed member\<close>



lemma add_to_cache_bot:
  "config (fst (snd (add_to_cache K s d))) = config s"
  "busy (fst (snd (add_to_cache K s d))) = busy s"
  "history (fst (snd (add_to_cache K s d))) = history s"
  by (simp_all add: add_to_cache_def Let_def split: option.splits sum.splits)

lemma add_remove_reliable_role_fields:
  "config (add_remove_reliable_role s) = config s"
  "busy (add_remove_reliable_role s) = busy s"
  "history (add_remove_reliable_role s) = history s"
  by (simp_all add: add_remove_reliable_role_def)

lemma add_remove_failed_role_fields:
  "config (add_remove_failed_role G s) =
     (if failed_role s \<noteq> None \<and>
         (case failed_member_id (config s) of
            None \<Rightarrow> False
          | Some f \<Rightarrow> f \<noteq> 0 \<and> f \<notin> set (failed_role_members G) \<and> \<not> fetch_member_finds G f)
      then (config s)\<lparr>failed_member_id := None, correct_inputs_by_failed_member := 0\<rparr>
      else config s)"
  "busy (add_remove_failed_role G s) = busy s"
  "history (add_remove_failed_role G s) = history s"
  by (simp_all add: add_remove_failed_role_def Let_def split: option.splits)

lemma do_busy_work_config:
  "config (fst (snd (do_busy_work K G s d))) =
     (if busy s = 0 then config (add_remove_failed_role G s) else config s)"
  by (simp add: do_busy_work_def add_to_cache_bot add_remove_reliable_role_fields)

lemma schedule_busy_work_config:
  "config (fst (snd (schedule_busy_work K G s d))) =
     (if busy s = 1 \<and> failed_role s \<noteq> None \<and>
         (case failed_member_id (config s) of
            None \<Rightarrow> False
          | Some f \<Rightarrow> f \<noteq> 0 \<and> f \<notin> set (failed_role_members G) \<and> \<not> fetch_member_finds G f)
      then (config s)\<lparr>failed_member_id := None, correct_inputs_by_failed_member := 0\<rparr>
      else config s)"
  by (simp add: schedule_busy_work_def do_busy_work_config add_remove_failed_role_fields)

text \<open>The deferred work changes nothing else of the game: the chain count, the current word,
  the current holder, the high score and the flag of the high-score marker stay, and so do
  the histories and the database.\<close>

lemma schedule_busy_work_frame:
  "current_count (config (fst (snd (schedule_busy_work K G s d)))) = current_count (config s)"
  "current_word (config (fst (snd (schedule_busy_work K G s d)))) = current_word (config s)"
  "current_member_id (config (fst (snd (schedule_busy_work K G s d)))) =
     current_member_id (config s)"
  "high_score (config (fst (snd (schedule_busy_work K G s d)))) = high_score (config s)"
  "put_high_score_emoji (config (fst (snd (schedule_busy_work K G s d)))) =
     put_high_score_emoji (config s)"
  "history (fst (snd (schedule_busy_work K G s d))) = history s"
  "snd (snd (schedule_busy_work K G s d)) = d"
  by (simp_all add: schedule_busy_work_config)
     (simp_all add: schedule_busy_work_def do_busy_work_def add_to_cache_bot
        add_to_cache_db_unchanged add_remove_reliable_role_fields add_remove_failed_role_fields)




lemma counter_below_30_preserved:
  assumes "0 \<le> correct_inputs_by_failed_member (config s)"
      and "correct_inputs_by_failed_member (config s) < 30"
  shows "0 \<le> correct_inputs_by_failed_member (config (bot_of (on_message K fut m s d))) \<and>
         correct_inputs_by_failed_member (config (bot_of (on_message K fut m s d))) < 30"
  using on_message_effect [of K fut m s d] assms
  by (auto simp add: effect_ok_def accept_def Let_def tuple_simps accepted_config_def
        update_current_def reaction_emoji_def enter_def mistake_config_def reset_def
        split: outcome.splits)

subsection \<open>The decay of the karma\<close>

lemma calculate_total_karma_negative:
  "base word < 0 \<Longrightarrow> calculate_total_karma base rate n word h = base word"
  by (simp add: calculate_total_karma_def)

text \<open>
  C4. For a word whose base score is not negative, and a decay rate that is not negative, a
  history with at least as many entries ending in the word's last letter (within the
  window) gives at most the karma of a history with fewer such entries.
\<close>

theorem karma_decay_monotone:
  assumes "0 \<le> base word" and "0 \<le> rate"
      and "ending_count n word h2 \<le> ending_count n word h1"
  shows "calculate_total_karma base rate n word h1 \<le> calculate_total_karma base rate n word h2"
proof -
  have "rate * real (ending_count n word h2) \<le> rate * real (ending_count n word h1)"
    using assms(2,3) by (simp add: mult_left_mono)
  then have "rate * real (ending_count n word h2) * base word
           \<le> rate * real (ending_count n word h1) * base word"
    using assms(1) by (rule mult_right_mono)
  then show ?thesis
    using assms(1) by (simp add: calculate_total_karma_def Let_def)
qed

theorem karma_decay_monotone_witness:
  "(0::real) \<le> (\<lambda>w. 2) ''as'' \<and> (0::real) \<le> 1 / 10 \<and>
   ending_count 5 ''as'' [''souls'', ''bank''] = 1 \<and>
   ending_count 5 ''as'' [''souls'', ''picks''] = 2 \<and>
   calculate_total_karma (\<lambda>w. 2) (1 / 10) 5 ''as'' [''souls'', ''picks'']
     \<le> calculate_total_karma (\<lambda>w. 2) (1 / 10) 5 ''as'' [''souls'', ''bank'']"
proof -
  have c: "ending_count 5 ''as'' [''souls'', ''bank''] = 1"
          "ending_count 5 ''as'' [''souls'', ''picks''] = 2"
    by (simp_all add: ending_count_def)
  have "ending_count 5 ''as'' [''souls'', ''bank'']
          \<le> ending_count 5 ''as'' [''souls'', ''picks'']"
    by (simp add: c)
  from karma_decay_monotone [of "\<lambda>w. 2" "''as''" "1 / 10", OF _ _ this] c
  show ?thesis by simp
qed

end
